theory Spec2Isabelle
  imports Complex_Main "HOL-Library.Finite_Map"
begin

section \<open>Decoded documents\<close>

text \<open>
  \<^verbatim>\<open>encoding/json\<close> decodes a document into \<^verbatim>\<open>interface{}\<close> values whose dynamic
  type is one of: nil, \<^verbatim>\<open>bool\<close>, \<^verbatim>\<open>float64\<close>, \<^verbatim>\<open>string\<close>, \<^verbatim>\<open>[]interface{}\<close>,
  \<^verbatim>\<open>map[string]interface{}\<close>. A decoded number is a finite \<^verbatim>\<open>float64\<close>; it is
  represented by the real number it denotes, so that Go's \<^verbatim>\<open>==\<close> on the two floats is
  equality of the two reals. A Go map is a finite map: no order, no duplicate keys.
  Strings are byte sequences, as in Go.
\<close>

datatype json =
    JNull
  | JBool bool
  | JNumber real
  | JString string
  | JArray "json list"
  | JObject "(string, json) fmap"

text \<open>\<^verbatim>\<open>type Record map[string]interface{}\<close>; a nil map reads like the empty one.\<close>

type_synonym Record = "(string, json) fmap"

text \<open>
  \<^verbatim>\<open>reflect.DeepEqual\<close> on two decoded values. Values of different dynamic types
  are not equal; nil equals nil only; scalars are compared with \<^verbatim>\<open>==\<close>; two slices
  are equal when they have the same length and deeply equal elements; two maps are equal
  when they have the same number of keys and every key of the first is a key of the
  second with a deeply equal value.
\<close>

function (sequential) DeepEqual :: "json \<Rightarrow> json \<Rightarrow> bool" where
  "DeepEqual JNull JNull = True"
| "DeepEqual (JBool a) (JBool b) = (a = b)"
| "DeepEqual (JNumber a) (JNumber b) = (a = b)"
| "DeepEqual (JString a) (JString b) = (a = b)"
| "DeepEqual (JArray xs) (JArray ys) = list_all2 DeepEqual xs ys"
| "DeepEqual (JObject m) (JObject n) =
     (fcard (fmdom m) = fcard (fmdom n) \<and>
      fBall (fmdom m) (\<lambda>k.
        case fmlookup m k of
          None \<Rightarrow> False
        | Some v \<Rightarrow> (case fmlookup n k of None \<Rightarrow> False | Some w \<Rightarrow> DeepEqual v w)))"
| "DeepEqual _ _ = False"
  by pat_completeness auto
termination
proof (relation "measure (\<lambda>(x, y). size x)")
  fix m n :: "(string, json) fmap" and k v w
  assume look: "fmlookup m k = Some v"
  have mem: "(k, v) \<in> fset (fset_of_fmap m)"
    using look by (simp add: fset_of_fmap.rep_eq set_of_map_def)
  have "(\<Sum>x\<in>{(k, v)}. Suc (case x of (a, x) \<Rightarrow> size x))
          \<le> (\<Sum>x\<in>fset (fset_of_fmap m). Suc (case x of (a, x) \<Rightarrow> size x))"
    by (rule sum_mono2) (use mem in auto)
  then show "((v, w), (JObject m, JObject n)) \<in> measure (\<lambda>(x, y). size x)"
    by simp
next
  fix xs ys :: "json list" and z yb
  assume "z \<in> set xs"
  then show "((z, yb), (JArray xs, JArray ys)) \<in> measure (\<lambda>(x, y). size x)"
    by (simp add: less_Suc_eq_le size_list_estimation')
qed simp

section \<open>Record.Get\<close>

text \<open>
  The loop \<^verbatim>\<open>for _, namePart := range nameParts[1:]\<close>: the current value must be a
  map holding the next name part; the result is the pair (value, ok) of the source,
  with nil as the value when ok is false.
\<close>

fun Get_loop :: "json \<Rightarrow> string list \<Rightarrow> json \<times> bool" where
  "Get_loop val [] = (val, True)"
| "Get_loop val (namePart # rest) =
     (case val of
        JObject typedVal \<Rightarrow>
          (case fmlookup typedVal namePart of
             None \<Rightarrow> (JNull, False)
           | Some val' \<Rightarrow> Get_loop val' rest)
      | _ \<Rightarrow> (JNull, False))"

definition Get :: "Record \<Rightarrow> string list \<Rightarrow> json \<times> bool" where
  "Get r nameParts =
     (if length nameParts \<le> 0 then (JNull, False)
      else (case fmlookup r (hd nameParts) of
              None \<Rightarrow> (JNull, False)
            | Some val \<Rightarrow> Get_loop val (tl nameParts)))"

section \<open>The string functions of the Go library that the program calls\<close>

text \<open>
  \<^verbatim>\<open>strings.Split(s, sep)\<close> for a separator of one byte (the program splits on
  \<^verbatim>\<open>","\<close> and on \<^verbatim>\<open>"/"\<close> only): the pieces between the separators, in order; a
  string without separator is the only piece, also when it is empty.
\<close>

fun Split :: "string \<Rightarrow> char \<Rightarrow> string list" where
  "Split [] sep = [[]]"
| "Split (c # s) sep =
     (if c = sep then [] # Split s sep
      else (case Split s sep of
              [] \<Rightarrow> [[c]]
            | a # as \<Rightarrow> (c # a) # as))"

text \<open>\<^verbatim>\<open>strings.Join\<close> with a separator of one byte; it states what a split is.\<close>

fun Join :: "string list \<Rightarrow> char \<Rightarrow> string" where
  "Join [] sep = []"
| "Join [a] sep = a"
| "Join (a # b # bs) sep = a @ sep # Join (b # bs) sep"

text \<open>
  \<^verbatim>\<open>strings.Trim(s, cutset)\<close> for a cutset of ASCII bytes (the program trims
  \<^verbatim>\<open>"/"\<close> only): all leading and trailing bytes of the cutset are removed.
\<close>

definition TrimLeft :: "string \<Rightarrow> string \<Rightarrow> string" where
  "TrimLeft s cutset = dropWhile (\<lambda>c. c \<in> set cutset) s"

definition TrimRight :: "string \<Rightarrow> string \<Rightarrow> string" where
  "TrimRight s cutset = rev (dropWhile (\<lambda>c. c \<in> set cutset) (rev s))"

definition Trim :: "string \<Rightarrow> string \<Rightarrow> string" where
  "Trim s cutset = TrimLeft (TrimRight s cutset) cutset"

text \<open>
  \<^verbatim>\<open>strings.TrimSpace(s)\<close> removes the leading and the trailing white space, as
  \<^verbatim>\<open>unicode.IsSpace\<close> defines it: U+0009 to U+000D, U+0020, U+0085, U+00A0, U+1680,
  U+2000 to U+200A, U+2028, U+2029, U+202F, U+205F, U+3000. The strings of this program
  come out of the JSON decoder, so they are valid UTF-8, and a white space rune at either
  end is one of the byte sequences below.
\<close>

definition is_space :: "string \<Rightarrow> bool" where
  "is_space bs \<longleftrightarrow>
     bs \<in> set [[CHR 0x09], [CHR 0x0A], [CHR 0x0B], [CHR 0x0C], [CHR 0x0D], [CHR 0x20],
       [CHR 0xC2, CHR 0x85], [CHR 0xC2, CHR 0xA0],
       [CHR 0xE1, CHR 0x9A, CHR 0x80],
       [CHR 0xE2, CHR 0x80, CHR 0x80], [CHR 0xE2, CHR 0x80, CHR 0x81],
       [CHR 0xE2, CHR 0x80, CHR 0x82], [CHR 0xE2, CHR 0x80, CHR 0x83],
       [CHR 0xE2, CHR 0x80, CHR 0x84], [CHR 0xE2, CHR 0x80, CHR 0x85],
       [CHR 0xE2, CHR 0x80, CHR 0x86], [CHR 0xE2, CHR 0x80, CHR 0x87],
       [CHR 0xE2, CHR 0x80, CHR 0x88], [CHR 0xE2, CHR 0x80, CHR 0x89],
       [CHR 0xE2, CHR 0x80, CHR 0x8A],
       [CHR 0xE2, CHR 0x80, CHR 0xA8], [CHR 0xE2, CHR 0x80, CHR 0xA9],
       [CHR 0xE2, CHR 0x80, CHR 0xAF], [CHR 0xE2, CHR 0x81, CHR 0x9F],
       [CHR 0xE3, CHR 0x80, CHR 0x80]]"

text \<open>The number of bytes of the white space rune at the front (at the back); 0 if none.\<close>

definition space_width :: "string \<Rightarrow> nat" where
  "space_width s =
     (if is_space (take 1 s) then 1
      else if is_space (take 2 s) then 2
      else if is_space (take 3 s) then 3
      else 0)"

definition space_width_last :: "string \<Rightarrow> nat" where
  "space_width_last s =
     (if is_space (drop (length s - 1) s) then 1
      else if is_space (drop (length s - 2) s) then 2
      else if is_space (drop (length s - 3) s) then 3
      else 0)"

function TrimLeftSpace :: "string \<Rightarrow> string" where
  "TrimLeftSpace s =
     (if space_width s = 0 then s else TrimLeftSpace (drop (space_width s) s))"
  by pat_completeness auto
termination
proof (relation "measure length")
  fix s :: string
  assume w: "space_width s \<noteq> 0"
  have "s \<noteq> []"
  proof
    assume "s = []"
    then have "space_width s = 0"
      by (simp add: space_width_def is_space_def)
    with w show False by simp
  qed
  with w show "(drop (space_width s) s, s) \<in> measure length"
    by (cases s) simp_all
qed simp

function TrimRightSpace :: "string \<Rightarrow> string" where
  "TrimRightSpace s =
     (if space_width_last s = 0 then s
      else TrimRightSpace (take (length s - space_width_last s) s))"
  by pat_completeness auto
termination
proof (relation "measure length")
  fix s :: string
  assume w: "space_width_last s \<noteq> 0"
  have "s \<noteq> []"
  proof
    assume "s = []"
    then have "space_width_last s = 0"
      by (simp add: space_width_last_def is_space_def)
    with w show False by simp
  qed
  with w show "(take (length s - space_width_last s) s, s) \<in> measure length"
    by (cases s) simp_all
qed simp

declare TrimLeftSpace.simps [simp del]
declare TrimRightSpace.simps [simp del]

definition TrimSpace :: "string \<Rightarrow> string" where
  "TrimSpace s = TrimRightSpace (TrimLeftSpace s)"

section \<open>Errors\<close>

text \<open>
  The three sentinel errors of the program, and the error of \<^verbatim>\<open>strconv\<close>:
  \<^verbatim>\<open>&NumError{Func, Num, Err}\<close> with \<^verbatim>\<open>ErrSyntax\<close> as its cause. The switch of
  \<^verbatim>\<open>mutate\<close> compares error values by identity, which is equality of constructors here.
\<close>

datatype error =
    errIgnoredNamespace
  | errNoLabel
  | errLabelDisabled
  | ErrSyntax
  | NumError string string error

definition EnabledLabel :: string where
  "EnabledLabel = ''path-protector.wish.com/enabled''"

definition PathsAnnotationKey :: string where
  "PathsAnnotationKey = ''path-protector.wish.com/paths''"

text \<open>
  \<^verbatim>\<open>err.Error()\<close>. The text of a \<^verbatim>\<open>NumError\<close> quotes the input with
  \<^verbatim>\<open>strconv.Quote\<close>, which is a parameter here (it escapes by Unicode tables).
\<close>

fun Error :: "(string \<Rightarrow> string) \<Rightarrow> error \<Rightarrow> string" where
  "Error quote errIgnoredNamespace = ''Ignored namespace for mutation''"
| "Error quote errNoLabel = ''Missing label: '' @ EnabledLabel"
| "Error quote errLabelDisabled = ''Label disabled execution''"
| "Error quote ErrSyntax = ''invalid syntax''"
| "Error quote (NumError func num err) =
     ''strconv.'' @ func @ '': '' @ ''parsing '' @ quote num @ '': '' @ Error quote err"

text \<open>\<^verbatim>\<open>strconv.ParseBool\<close>: twelve spellings are accepted, nothing else.\<close>

definition ParseBool :: "string \<Rightarrow> error + bool" where
  "ParseBool str =
     (if str \<in> set [''1'', ''t'', ''T'', ''true'', ''TRUE'', ''True''] then Inr True
      else if str \<in> set [''0'', ''f'', ''F'', ''false'', ''FALSE'', ''False''] then Inr False
      else Inl (NumError ''ParseBool'' str ErrSyntax))"

section \<open>mutationRequired\<close>

text \<open>
  The fields of \<^verbatim>\<open>metav1.ObjectMeta\<close> that the program reads. A nil map of labels or
  annotations reads like the empty one.
\<close>

record ObjectMeta =
  Name :: string
  Namespace :: string
  Labels :: "(string, string) fmap"
  Annotations :: "(string, string) fmap"

record objectWithMeta =
  ObjectMeta :: ObjectMeta

text \<open>
  The result \<^verbatim>\<open>([]string, error)\<close>: \<open>Inl\<close> the error when it is not nil, \<open>Inr\<close> the
  paths otherwise (a nil slice is the empty list). The loop over the ignored list
  returns at the first namespace equal to the object's: it tests membership.
\<close>

definition mutationRequired :: "string list \<Rightarrow> ObjectMeta \<Rightarrow> error + string list" where
  "mutationRequired ignoredList metadata =
     (if Namespace metadata \<in> set ignoredList then Inl errIgnoredNamespace
      else (case fmlookup (Labels metadata) EnabledLabel of
             None \<Rightarrow> Inl errNoLabel
           | Some v \<Rightarrow>
               (case ParseBool v of
                  Inl err \<Rightarrow> Inl err
                | Inr b \<Rightarrow>
                    if \<not> b then Inl errLabelDisabled
                    else (case fmlookup (Annotations metadata) PathsAnnotationKey of
                            None \<Rightarrow> Inr []
                          | Some paths \<Rightarrow> Inr (map TrimSpace (Split paths CHR '',''))))))"

section \<open>patchForPath\<close>

record patchOperation =
  Op :: string
  Path :: string
  Value :: json

definition patchForPath :: "string \<Rightarrow> Record \<Rightarrow> Record \<Rightarrow> patchOperation list" where
  "patchForPath path current replacement =
     (let pathParts = Split (Trim path ''/'') CHR ''/'';
          (currentV, ok) = Get current pathParts
      in if \<not> ok then []
         else
           let patchOp = \<lparr>Op = '''', Path = path, Value = currentV\<rparr>;
               (newV, ok') = Get replacement pathParts
           in if ok' then
                (if DeepEqual currentV newV then []
                 else [patchOp\<lparr>Op := ''replace''\<rparr>])
              else [patchOp\<lparr>Op := ''add''\<rparr>])"

section \<open>mutate\<close>

text \<open>\<^verbatim>\<open>metav1.NamespaceSystem\<close> and \<^verbatim>\<open>metav1.NamespacePublic\<close>.\<close>

definition NamespaceSystem :: string where
  "NamespaceSystem = ''kube-system''"

definition NamespacePublic :: string where
  "NamespacePublic = ''kube-public''"

definition ignoredNamespaces :: "string list" where
  "ignoredNamespaces = [NamespaceSystem, NamespacePublic]"

text \<open>
  \<^verbatim>\<open>json.Marshal(patches)\<close>, up to the concrete syntax of the values: the document is
  the sequence of the encoded operations, each the sequence of its members in the order
  of the struct's fields. The tag \<^verbatim>\<open>json:"value,omitempty"\<close> on a field of type
  \<^verbatim>\<open>interface{}\<close> leaves the member out exactly when the interface value is nil.
  Encoding a decoded value does not fail, so the error return of \<^verbatim>\<open>json.Marshal\<close>
  in \<^verbatim>\<open>mutate\<close> is not taken.
\<close>

type_synonym encoded_object = "(string \<times> json) list"

definition Marshal_patchOperation :: "patchOperation \<Rightarrow> encoded_object" where
  "Marshal_patchOperation p =
     [(''op'', JString (Op p)), (''path'', JString (Path p))]
     @ (if Value p = JNull then [] else [(''value'', Value p)])"

definition Marshal :: "patchOperation list \<Rightarrow> encoded_object list" where
  "Marshal patches = map Marshal_patchOperation patches"

text \<open>
  The decoder and the quoting function of the Go library are parameters of the model.
  \<^verbatim>\<open>json.Unmarshal\<close> into an \<^verbatim>\<open>objectWithMeta\<close> and into a
  \<^verbatim>\<open>map[string]interface{}\<close> gives the text of its error (\<open>Inl\<close>) or the decoded value.
\<close>

record externals =
  Unmarshal_objectWithMeta :: "string \<Rightarrow> string + objectWithMeta"
  Unmarshal_map :: "string \<Rightarrow> string + Record"
  Quote :: "string \<Rightarrow> string"

text \<open>
  \<^verbatim>\<open>runtime.RawExtension\<close>: the bytes, or nil. The request has more fields (kind,
  name, namespace, UID, operation, user); \<^verbatim>\<open>mutate\<close> only logs them.
\<close>

record RawExtension =
  Raw :: "string option"

record AdmissionRequest =
  Object :: RawExtension
  OldObject :: RawExtension

definition bytes :: "string option \<Rightarrow> string" where
  "bytes raw = (case raw of None \<Rightarrow> [] | Some b \<Rightarrow> b)"

record Status =
  Message :: string

datatype PatchType = PatchTypeJSONPatch

record AdmissionResponse =
  Allowed :: bool
  Result :: "Status option"
  Patch :: "encoded_object list option"
  PatchType :: "PatchType option"

text \<open>
  The two response literals that \<^verbatim>\<open>mutate\<close> writes again and again; a field that a Go
  literal does not mention has its zero value.
\<close>

definition allowed_response :: AdmissionResponse where
  "allowed_response = \<lparr>Allowed = True, Result = None, Patch = None, PatchType = None\<rparr>"

definition message_response :: "string \<Rightarrow> AdmissionResponse" where
  "message_response msg =
     \<lparr>Allowed = False, Result = Some \<lparr>Message = msg\<rparr>, Patch = None, PatchType = None\<rparr>"

definition mutate :: "externals \<Rightarrow> AdmissionRequest \<Rightarrow> AdmissionResponse" where
  "mutate ext req =
     (case Unmarshal_objectWithMeta ext (bytes (Raw (Object req))) of
        Inl err \<Rightarrow> message_response err
      | Inr newManifest \<Rightarrow>
          (case mutationRequired ignoredNamespaces (ObjectMeta newManifest) of
             Inl err \<Rightarrow>
               (case err of
                  errIgnoredNamespace \<Rightarrow> allowed_response
                | errNoLabel \<Rightarrow> allowed_response
                | errLabelDisabled \<Rightarrow> allowed_response
                | _ \<Rightarrow> message_response (Error (Quote ext) err))
           | Inr paths \<Rightarrow>
               if length paths = 0 then allowed_response
               else
                 (case (case Raw (OldObject req) of
                          None \<Rightarrow> Inr fmempty
                        | Some raw \<Rightarrow> Unmarshal_map ext raw) of
                    Inl err \<Rightarrow> message_response err
                  | Inr currentMap \<Rightarrow>
                      (case Unmarshal_map ext (bytes (Raw (Object req))) of
                         Inl err \<Rightarrow> message_response err
                       | Inr newMap \<Rightarrow>
                           let patches =
                                 foldl (\<lambda>patches path.
                                          patches @ patchForPath path currentMap newMap)
                                   [] paths
                           in if length patches = 0 then allowed_response
                              else \<lparr>Allowed = True, Result = None,
                                    Patch = Some (Marshal patches),
                                    PatchType = Some PatchTypeJSONPatch\<rparr>))))"

section \<open>The payloads of TestMutate\<close>

text \<open>
  Payloads of \<^verbatim>\<open>TestMutate\<close> (the white space between the tokens of the long ones
  left out), and a few more in their style, with what \<^verbatim>\<open>encoding/json\<close>
  decodes them to and \<^verbatim>\<open>strconv.Quote\<close> as it is on printable ASCII without quote or
  backslash. These externals are used at these payloads only.
\<close>

definition payload_NOTABOOL :: string where
  \<open>payload_NOTABOOL =
     ''{"metadata": {"labels": {"path-protector.wish.com/enabled": "NOTABOOL"}}}''\<close>

definition payload_new :: string where
  \<open>payload_new =
     ''{"metadata":{"annotations":{"path-protector.wish.com/paths":''
     @ ''"/spec/replicas, /metadata/labels/testlabel"},''
     @ ''"labels":{"path-protector.wish.com/enabled":"true","testlabel":"new"},''
     @ ''"namespace":"testns","name":"testdeployment"},"spec":{"replicas":1}}''\<close>

definition payload_old :: string where
  \<open>payload_old =
     ''{"metadata":{''
     @ ''"labels":{"path-protector.wish.com/enabled":"true","testlabel":"existing"},''
     @ ''"namespace":"testns","name":"testdeployment"},"spec":{"replicas":10}}''\<close>

definition payload_kube_system :: string where
  \<open>payload_kube_system =
     ''{"metadata":{"annotations":{"path-protector.wish.com/paths":"/spec/replicas"},''
     @ ''"labels":{"path-protector.wish.com/enabled":"true"},''
     @ ''"namespace":"kube-system","name":"testdeployment"},"spec":{"replicas":1}}''\<close>

definition payload_enabled :: string where
  \<open>payload_enabled =
     ''{"metadata": {"labels": {"path-protector.wish.com/enabled": "true"}}}''\<close>

definition payload_stray_commas :: string where
  \<open>payload_stray_commas =
     ''{"metadata":{"annotations":{"path-protector.wish.com/paths":''
     @ ''"/spec/replicas,, /metadata/labels/testlabel ,"},''
     @ ''"labels":{"path-protector.wish.com/enabled":"true"}}}''\<close>

text \<open>An update that declares the path \<^verbatim>\<open>/spec/replicas\<close> twice.\<close>

definition payload_twice :: string where
  \<open>payload_twice =
     ''{"metadata":{"annotations":{"path-protector.wish.com/paths":''
     @ ''"/spec/replicas,/spec/replicas"},''
     @ ''"labels":{"path-protector.wish.com/enabled":"true"},''
     @ ''"namespace":"testns","name":"testdeployment"},"spec":{"replicas":1}}''\<close>

definition meta_twice :: objectWithMeta where
  "meta_twice =
     \<lparr>ObjectMeta = \<lparr>Name = ''testdeployment'', Namespace = ''testns'',
        Labels = fmap_of_list [(EnabledLabel, ''true'')],
        Annotations = fmap_of_list
          [(PathsAnnotationKey, ''/spec/replicas,/spec/replicas'')]\<rparr>\<rparr>"

definition map_twice :: Record where
  "map_twice = fmap_of_list
     [(''metadata'', JObject (fmap_of_list
        [(''annotations'', JObject (fmap_of_list
            [(PathsAnnotationKey, JString ''/spec/replicas,/spec/replicas'')])),
         (''labels'', JObject (fmap_of_list [(EnabledLabel, JString ''true'')])),
         (''namespace'', JString ''testns''),
         (''name'', JString ''testdeployment'')])),
      (''spec'', JObject (fmap_of_list [(''replicas'', JNumber 1)]))]"

definition meta_enabled :: objectWithMeta where
  "meta_enabled =
     \<lparr>ObjectMeta = \<lparr>Name = [], Namespace = [],
        Labels = fmap_of_list [(EnabledLabel, ''true'')], Annotations = fmempty\<rparr>\<rparr>"

definition meta_stray_commas :: objectWithMeta where
  "meta_stray_commas =
     \<lparr>ObjectMeta = \<lparr>Name = [], Namespace = [],
        Labels = fmap_of_list [(EnabledLabel, ''true'')],
        Annotations = fmap_of_list
          [(PathsAnnotationKey, ''/spec/replicas,, /metadata/labels/testlabel ,'')]\<rparr>\<rparr>"

definition meta_NOTABOOL :: objectWithMeta where
  "meta_NOTABOOL =
     \<lparr>ObjectMeta = \<lparr>Name = [], Namespace = [],
        Labels = fmap_of_list [(EnabledLabel, ''NOTABOOL'')], Annotations = fmempty\<rparr>\<rparr>"

definition meta_new :: objectWithMeta where
  "meta_new =
     \<lparr>ObjectMeta = \<lparr>Name = ''testdeployment'', Namespace = ''testns'',
        Labels = fmap_of_list [(EnabledLabel, ''true''), (''testlabel'', ''new'')],
        Annotations = fmap_of_list
          [(PathsAnnotationKey, ''/spec/replicas, /metadata/labels/testlabel'')]\<rparr>\<rparr>"

definition meta_kube_system :: objectWithMeta where
  "meta_kube_system =
     \<lparr>ObjectMeta = \<lparr>Name = ''testdeployment'', Namespace = ''kube-system'',
        Labels = fmap_of_list [(EnabledLabel, ''true'')],
        Annotations = fmap_of_list [(PathsAnnotationKey, ''/spec/replicas'')]\<rparr>\<rparr>"

definition map_new :: Record where
  "map_new = fmap_of_list
     [(''metadata'', JObject (fmap_of_list
        [(''annotations'', JObject (fmap_of_list
            [(PathsAnnotationKey, JString ''/spec/replicas, /metadata/labels/testlabel'')])),
         (''labels'', JObject (fmap_of_list
            [(EnabledLabel, JString ''true''), (''testlabel'', JString ''new'')])),
         (''namespace'', JString ''testns''),
         (''name'', JString ''testdeployment'')])),
      (''spec'', JObject (fmap_of_list [(''replicas'', JNumber 1)]))]"

definition map_old :: Record where
  "map_old = fmap_of_list
     [(''metadata'', JObject (fmap_of_list
        [(''labels'', JObject (fmap_of_list
            [(EnabledLabel, JString ''true''), (''testlabel'', JString ''existing'')])),
         (''namespace'', JString ''testns''),
         (''name'', JString ''testdeployment'')])),
      (''spec'', JObject (fmap_of_list [(''replicas'', JNumber 10)]))]"

text \<open>
  The documents of the scenarios: \<^verbatim>\<open>{"spec":{"replicas":n}}\<close>,
  \<^verbatim>\<open>{"spec":{"replicas":null}}\<close> and \<^verbatim>\<open>{"spec":{}}\<close>.
\<close>

definition doc_replicas :: "real \<Rightarrow> Record" where
  "doc_replicas n =
     fmap_of_list [(''spec'', JObject (fmap_of_list [(''replicas'', JNumber n)]))]"

definition doc_replicas_null :: Record where
  "doc_replicas_null =
     fmap_of_list [(''spec'', JObject (fmap_of_list [(''replicas'', JNull)]))]"

definition doc_no_replicas :: Record where
  "doc_no_replicas = fmap_of_list [(''spec'', JObject fmempty)]"

definition test_Unmarshal_objectWithMeta :: "string \<Rightarrow> string + objectWithMeta" where
  "test_Unmarshal_objectWithMeta b =
     (if b = [] then Inl ''unexpected end of JSON input''
      else if b = payload_NOTABOOL then Inr meta_NOTABOOL
      else if b = payload_new then Inr meta_new
      else if b = payload_kube_system then Inr meta_kube_system
      else if b = payload_enabled then Inr meta_enabled
      else if b = payload_stray_commas then Inr meta_stray_commas
      else if b = payload_twice then Inr meta_twice
      else Inl ''not a payload of TestMutate'')"

definition test_Unmarshal_map :: "string \<Rightarrow> string + Record" where
  "test_Unmarshal_map b =
     (if b = [] then Inl ''unexpected end of JSON input''
      else if b = payload_new then Inr map_new
      else if b = payload_old then Inr map_old
      else if b = payload_twice then Inr map_twice
      else Inl ''not a payload of TestMutate'')"

definition test_externals :: externals where
  "test_externals =
     \<lparr>Unmarshal_objectWithMeta = test_Unmarshal_objectWithMeta,
      Unmarshal_map = test_Unmarshal_map,
      Quote = (\<lambda>s. [CHR 0x22] @ s @ [CHR 0x22])\<rparr>"

definition request :: "string option \<Rightarrow> string option \<Rightarrow> AdmissionRequest" where
  "request new old = \<lparr>Object = \<lparr>Raw = new\<rparr>, OldObject = \<lparr>Raw = old\<rparr>\<rparr>"

section \<open>Deep equality is equality\<close>

lemma list_all2_eq_on:
  "(\<And>x y. x \<in> set xs \<Longrightarrow> P x y \<longleftrightarrow> x = y) \<Longrightarrow> list_all2 P xs ys \<longleftrightarrow> xs = ys"
proof (induction xs arbitrary: ys)
  case Nil
  then show ?case by auto
next
  case (Cons x xs)
  then show ?case by (cases ys) auto
qed

lemma fmap_eq_on:
  assumes IH: "\<And>v w. v \<in> fmran' m \<Longrightarrow> P v w \<longleftrightarrow> v = w"
  shows "(fcard (fmdom m) = fcard (fmdom n) \<and>
          fBall (fmdom m) (\<lambda>k.
            case fmlookup m k of
              None \<Rightarrow> False
            | Some v \<Rightarrow> (case fmlookup n k of None \<Rightarrow> False | Some w \<Rightarrow> P v w)))
         \<longleftrightarrow> m = n"
    (is "?L \<longleftrightarrow> _")
proof
  assume "m = n"
  then show ?L
    using IH by (auto simp: fmran'I split: option.splits)
next
  assume L: ?L
  have agree: "fmlookup n k = fmlookup m k" if "k |\<in>| fmdom m" for k
  proof -
    from that obtain v where v: "fmlookup m k = Some v"
      by (auto simp: fmlookup_dom_iff)
    with L that obtain w where w: "fmlookup n k = Some w" and "P v w"
      by (auto split: option.splits)
    moreover have "v \<in> fmran' m" using v by (rule fmran'I)
    ultimately show ?thesis using IH v by simp
  qed
  have sub: "fmdom m |\<subseteq>| fmdom n"
  proof
    fix k assume k: "k |\<in>| fmdom m"
    then obtain v where "fmlookup m k = Some v" by (auto simp: fmlookup_dom_iff)
    with agree [OF k] show "k |\<in>| fmdom n" by (simp add: fmlookup_dom_iff)
  qed
  have dom: "fmdom m = fmdom n"
    using sub L by (metis fcard_seteq order_refl)
  show "m = n"
  proof (rule fmap_ext)
    fix k
    show "fmlookup m k = fmlookup n k"
    proof (cases "k |\<in>| fmdom m")
      case True
      then show ?thesis by (simp add: agree)
    next
      case False
      with dom have "k |\<notin>| fmdom n" by simp
      with False show ?thesis by (simp add: fmdom_notD)
    qed
  qed
qed

text \<open>
  The comparison that \<^verbatim>\<open>reflect.DeepEqual\<close> makes level by level decides the equality
  of the two documents: it is structural, and it does not see the order in which the
  keys of a map were written.
\<close>

lemma DeepEqual_iff: "DeepEqual x y \<longleftrightarrow> x = y"
proof (induction x arbitrary: y)
  case (JArray xs)
  then show ?case by (cases y) (simp_all add: list_all2_eq_on)
next
  case (JObject m)
  show ?case
  proof (cases y)
    case (JObject n)
    then show ?thesis
      using fmap_eq_on [of m DeepEqual n] JObject.IH by simp
  qed simp_all
qed (case_tac y; simp)+

section \<open>Splitting and trimming\<close>

lemma Split_not_Nil: "Split s sep \<noteq> []"
  by (induction s) (simp_all split: list.split)

lemma length_Split: "length (Split s sep) = Suc (count_list s sep)"
  by (induction s) (auto split: list.split simp: Split_not_Nil)

lemma Split_no_sep: "x \<in> set (Split s sep) \<Longrightarrow> sep \<notin> set x"
  by (induction s arbitrary: x) (auto split: if_splits list.splits)

lemma Join_Cons: "Join ((c # a) # as) sep = c # Join (a # as) sep"
  by (cases as) simp_all

lemma Join_Split: "Join (Split s sep) sep = s"
  by (induction s) (auto split: list.split simp: Split_not_Nil Join_Cons)

text \<open>
  Trimming removes a prefix and a suffix and nothing else; no white space rune is left
  at the front after the left trim nor at the back after the right trim, and no byte of
  the cutset at either end of \<^verbatim>\<open>strings.Trim\<close>.
\<close>

lemma TrimLeftSpace_done: "space_width (TrimLeftSpace s) = 0"
  by (induction s rule: TrimLeftSpace.induct) (subst TrimLeftSpace.simps, simp)

lemma TrimRightSpace_done: "space_width_last (TrimRightSpace s) = 0"
  by (induction s rule: TrimRightSpace.induct) (subst TrimRightSpace.simps, simp)

lemma TrimLeftSpace_suffix: "\<exists>pre. s = pre @ TrimLeftSpace s"
proof (induction s rule: TrimLeftSpace.induct)
  case (1 s)
  show ?case
  proof (cases "space_width s = 0")
    case True
    then show ?thesis by (subst TrimLeftSpace.simps) simp
  next
    case False
    with 1 obtain pre where "drop (space_width s) s = pre @ TrimLeftSpace (drop (space_width s) s)"
      by blast
    then have "s = (take (space_width s) s @ pre) @ TrimLeftSpace (drop (space_width s) s)"
      by (metis append.assoc append_take_drop_id)
    moreover have "TrimLeftSpace s = TrimLeftSpace (drop (space_width s) s)"
      using False by (subst TrimLeftSpace.simps) simp
    ultimately show ?thesis by metis
  qed
qed

lemma TrimRightSpace_prefix: "\<exists>post. s = TrimRightSpace s @ post"
proof (induction s rule: TrimRightSpace.induct)
  case (1 s)
  show ?case
  proof (cases "space_width_last s = 0")
    case True
    then show ?thesis by (subst TrimRightSpace.simps) simp
  next
    case False
    let ?t = "take (length s - space_width_last s) s"
    from False 1 obtain post where "?t = TrimRightSpace ?t @ post"
      by blast
    then have "s = TrimRightSpace ?t @ (post @ drop (length s - space_width_last s) s)"
      by (metis append.assoc append_take_drop_id)
    moreover have "TrimRightSpace s = TrimRightSpace ?t"
      using False by (subst TrimRightSpace.simps) simp
    ultimately show ?thesis by metis
  qed
qed

lemma TrimSpace_infix: "\<exists>pre post. s = pre @ TrimSpace s @ post"
  unfolding TrimSpace_def
  using TrimLeftSpace_suffix [of s] TrimRightSpace_prefix [of "TrimLeftSpace s"]
  by metis

lemma Trim_ends:
  "Trim s cutset = [] \<or>
   (hd (Trim s cutset) \<notin> set cutset \<and> last (Trim s cutset) \<notin> set cutset)"
proof (cases "Trim s cutset = []")
  case False
  let ?P = "\<lambda>c. c \<in> set cutset"
  let ?t = "rev (dropWhile ?P (rev s))"
  have t: "Trim s cutset = dropWhile ?P ?t"
    by (simp add: Trim_def TrimLeft_def TrimRight_def)
  have "hd (dropWhile ?P ?t) \<notin> set cutset"
    using False t hd_dropWhile [of ?P ?t] by simp
  moreover have "last (dropWhile ?P ?t) \<notin> set cutset"
  proof -
    have ne: "dropWhile ?P ?t \<noteq> []"
      using False t by simp
    have tne: "dropWhile ?P (rev s) \<noteq> []"
    proof
      assume a: "dropWhile ?P (rev s) = []"
      have "dropWhile ?P ?t = []"
        by (simp only: a rev.simps dropWhile.simps)
      with ne show False by simp
    qed
    have "last ?t = last (takeWhile ?P ?t @ dropWhile ?P ?t)"
      by simp
    also have "\<dots> = last (dropWhile ?P ?t)"
      using ne by (rule last_appendR)
    finally have "last (dropWhile ?P ?t) = hd (dropWhile ?P (rev s))"
      by (simp add: last_rev)
    then show ?thesis
      using hd_dropWhile [OF tne] by simp
  qed
  ultimately show ?thesis by (simp add: t)
qed simp

lemma path_spec_replicas:
  "Split (Trim ''/spec/replicas'' ''/'') CHR ''/'' = [''spec'', ''replicas'']"
  by code_simp

lemma TrimSpace_examples:
  "TrimSpace ''/spec/replicas'' = ''/spec/replicas''"
  "TrimSpace [] = []"
  "TrimSpace '' /metadata/labels/testlabel '' = ''/metadata/labels/testlabel''"
  by code_simp+

section \<open>Properties of Record.Get\<close>

text \<open>
  C9. \<^verbatim>\<open>Record.Get\<close>, for every record and every segment list: no segment, not
  found; a first key that misses, not found; one segment that hits, that value (whatever
  it is) and found; more segments below a map, the lookup of the remaining segments in
  that map; more segments below anything that is not a map (null, a scalar, a
  sequence), not found.
\<close>

theorem Get_walk:
  "Get r nameParts =
     (case nameParts of
        [] \<Rightarrow> (JNull, False)
      | k # ks \<Rightarrow>
          (case fmlookup r k of
             None \<Rightarrow> (JNull, False)
           | Some v \<Rightarrow>
               (case ks of
                  [] \<Rightarrow> (v, True)
                | _ # _ \<Rightarrow>
                    (case v of
                       JObject m \<Rightarrow> Get m ks
                     | JNull \<Rightarrow> (JNull, False)
                     | JBool _ \<Rightarrow> (JNull, False)
                     | JNumber _ \<Rightarrow> (JNull, False)
                     | JString _ \<Rightarrow> (JNull, False)
                     | JArray _ \<Rightarrow> (JNull, False)))))"
  by (simp add: Get_def split: list.split option.split json.split)

text \<open>
  In \<^verbatim>\<open>{"spec":{"replicas":10}}\<close>: the number below two maps, nothing for no segment,
  nothing below the number, nothing for a key that misses, the inner map for one segment.
\<close>

theorem Get_walk_witness:
  "Get (doc_replicas 10) [''spec'', ''replicas''] = (JNumber 10, True)
   \<and> Get (doc_replicas 10) [] = (JNull, False)
   \<and> Get (doc_replicas 10) [''spec'', ''replicas'', ''x''] = (JNull, False)
   \<and> Get (doc_replicas 10) [''spec'', ''size''] = (JNull, False)
   \<and> Get (doc_replicas 10) [''spec''] =
       (JObject (fmap_of_list [(''replicas'', JNumber 10)]), True)"
  by (simp add: Get_walk doc_replicas_def)

lemma Get_doc_replicas: "Get (doc_replicas n) [''spec'', ''replicas''] = (JNumber n, True)"
  by (simp add: Get_def doc_replicas_def)

lemma Get_doc_replicas_null: "Get doc_replicas_null [''spec'', ''replicas''] = (JNull, True)"
  by (simp add: Get_def doc_replicas_null_def)

lemma Get_doc_no_replicas: "Get doc_no_replicas [''spec'', ''replicas''] = (JNull, False)"
  by (simp add: Get_def doc_no_replicas_def)

section \<open>Properties of patchForPath\<close>

lemma patchForPath_cases:
  "patchForPath path current replacement = []
   \<or> (\<exists>p. patchForPath path current replacement = [p] \<and> Path p = path)"
  by (auto simp: patchForPath_def Let_def split: prod.splits)

lemma patchForPath_Op:
  "p \<in> set (patchForPath path current replacement) \<Longrightarrow>
   (Op p = ''add'' \<or> Op p = ''replace'') \<and> Path p = path"
  by (auto simp: patchForPath_def Let_def split: prod.splits if_splits)

lemma length_patchForPath: "length (patchForPath path current replacement) \<le> 1"
  by (simp add: patchForPath_def Let_def split: prod.splits)

lemma Path_concat_patchForPath:
  "map Path (concat (map (\<lambda>path. patchForPath path current replacement) paths)) =
     filter (\<lambda>path. patchForPath path current replacement \<noteq> []) paths"
proof (induction paths)
  case Nil
  then show ?case by simp
next
  case (Cons path paths)
  then show ?case
    using patchForPath_cases [of path current replacement] by auto
qed

lemma length_concat_patchForPath:
  "length (concat (map (\<lambda>path. patchForPath path current replacement) paths))
     \<le> length paths"
proof (induction paths)
  case Nil
  then show ?case by simp
next
  case (Cons path paths)
  then show ?case
    using length_patchForPath [of path current replacement] by simp
qed

text \<open>
  C1. For every path and every pair of documents, with the path trimmed of its slashes
  and split into segments: \<^verbatim>\<open>patchForPath\<close> emits nothing when the old document has no
  value at the segments; otherwise one operation with the path and the old document's
  value, \<^verbatim>\<open>add\<close> when the new document has no value there, \<^verbatim>\<open>replace\<close> when the new
  document's value is not the old one, and nothing when the two values are equal.
  Equal is equality of the decoded values, which is what the deep comparison decides.
\<close>

theorem patchForPath_emits:
  "patchForPath path old new =
     (let pathParts = Split (Trim path ''/'') CHR ''/'' in
      if \<not> snd (Get old pathParts) then []
      else if \<not> snd (Get new pathParts) then
        [\<lparr>Op = ''add'', Path = path, Value = fst (Get old pathParts)\<rparr>]
      else if fst (Get new pathParts) = fst (Get old pathParts) then []
      else [\<lparr>Op = ''replace'', Path = path, Value = fst (Get old pathParts)\<rparr>])"
  by (auto simp: patchForPath_def Let_def DeepEqual_iff split: prod.splits)

text \<open>
  The scenarios of the specification for \<^verbatim>\<open>/spec/replicas\<close>: 10 against 1 is replaced
  by 10; no old value, nothing; 10 against no new value is added; 10 against 10, nothing.
\<close>

theorem patchForPath_emits_witness:
  "patchForPath ''/spec/replicas'' (doc_replicas 10) (doc_replicas 1) =
     [\<lparr>Op = ''replace'', Path = ''/spec/replicas'', Value = JNumber 10\<rparr>]
   \<and> patchForPath ''/spec/replicas'' doc_no_replicas (doc_replicas 1) = []
   \<and> patchForPath ''/spec/replicas'' (doc_replicas 10) doc_no_replicas =
     [\<lparr>Op = ''add'', Path = ''/spec/replicas'', Value = JNumber 10\<rparr>]
   \<and> patchForPath ''/spec/replicas'' (doc_replicas 10) (doc_replicas 10) = []"
  using patchForPath_emits [of "''/spec/replicas''" "doc_replicas 10" "doc_replicas 1"]
    patchForPath_emits [of "''/spec/replicas''" doc_no_replicas "doc_replicas 1"]
    patchForPath_emits [of "''/spec/replicas''" "doc_replicas 10" doc_no_replicas]
    patchForPath_emits [of "''/spec/replicas''" "doc_replicas 10" "doc_replicas 10"]
  by (simp add: path_spec_replicas Get_doc_replicas Get_doc_no_replicas)

section \<open>The encoded patch\<close>

lemma map_of_Marshal_op:
  "map_of (Marshal_patchOperation p) ''op'' = Some (JString (Op p))"
  by (simp add: Marshal_patchOperation_def)

lemma map_of_Marshal_path:
  "map_of (Marshal_patchOperation p) ''path'' = Some (JString (Path p))"
  by (simp add: Marshal_patchOperation_def)

text \<open>
  C10. When the old document has null at the path and the new document has no value
  there or a value that is not null, one operation is emitted (the null counts as
  found), \<^verbatim>\<open>add\<close> or \<^verbatim>\<open>replace\<close> as the new document lacks or has the path, and its
  encoding has the members \<^verbatim>\<open>op\<close> and \<^verbatim>\<open>path\<close> and no member \<^verbatim>\<open>value\<close>.
\<close>

theorem null_value_omitted:
  assumes "Get old (Split (Trim path ''/'') CHR ''/'') = (JNull, True)"
    and "\<not> snd (Get new (Split (Trim path ''/'') CHR ''/''))
         \<or> fst (Get new (Split (Trim path ''/'') CHR ''/'')) \<noteq> JNull"
  shows "Marshal (patchForPath path old new) =
           [[(''op'', JString (if snd (Get new (Split (Trim path ''/'') CHR ''/''))
                               then ''replace'' else ''add'')),
             (''path'', JString path)]]
         \<and> (\<forall>entry \<in> set (Marshal (patchForPath path old new)).
               map_of entry ''value'' = None)"
  using assms
  by (auto simp: patchForPath_def Let_def DeepEqual_iff Marshal_def Marshal_patchOperation_def
      split: prod.splits)

text \<open>
  Old \<^verbatim>\<open>{"spec":{"replicas":null}}\<close> against \<^verbatim>\<open>{"spec":{}}\<close> and against
  \<^verbatim>\<open>{"spec":{"replicas":1}}\<close>: an operation without value; an old value of 10 is
  encoded with its value.
\<close>

theorem null_value_omitted_witness:
  "Get doc_replicas_null (Split (Trim ''/spec/replicas'' ''/'') CHR ''/'') = (JNull, True)
   \<and> Marshal (patchForPath ''/spec/replicas'' doc_replicas_null doc_no_replicas) =
       [[(''op'', JString ''add''), (''path'', JString ''/spec/replicas'')]]
   \<and> Marshal (patchForPath ''/spec/replicas'' doc_replicas_null (doc_replicas 1)) =
       [[(''op'', JString ''replace''), (''path'', JString ''/spec/replicas'')]]
   \<and> Marshal (patchForPath ''/spec/replicas'' (doc_replicas 10) doc_no_replicas) =
       [[(''op'', JString ''add''), (''path'', JString ''/spec/replicas''),
         (''value'', JNumber 10)]]"
proof -
  have old: "Get doc_replicas_null (Split (Trim ''/spec/replicas'' ''/'') CHR ''/'')
               = (JNull, True)"
    by (simp add: path_spec_replicas Get_doc_replicas_null)
  have new1: "\<not> snd (Get doc_no_replicas (Split (Trim ''/spec/replicas'' ''/'') CHR ''/''))
     \<or> fst (Get doc_no_replicas (Split (Trim ''/spec/replicas'' ''/'') CHR ''/'')) \<noteq> JNull"
    by (simp add: path_spec_replicas Get_doc_no_replicas)
  have new2: "\<not> snd (Get (doc_replicas 1) (Split (Trim ''/spec/replicas'' ''/'') CHR ''/''))
     \<or> fst (Get (doc_replicas 1) (Split (Trim ''/spec/replicas'' ''/'') CHR ''/'')) \<noteq> JNull"
    by (simp add: path_spec_replicas Get_doc_replicas)
  have kept: "Marshal (patchForPath ''/spec/replicas'' (doc_replicas 10) doc_no_replicas) =
       [[(''op'', JString ''add''), (''path'', JString ''/spec/replicas''),
         (''value'', JNumber 10)]]"
    by code_simp
  show ?thesis
    using old kept null_value_omitted [OF old new1] null_value_omitted [OF old new2]
    by (simp add: path_spec_replicas Get_doc_no_replicas Get_doc_replicas)
qed

section \<open>Properties of mutationRequired\<close>

lemma mutationRequired_ignored:
  "Namespace metadata \<in> set ignoredList \<Longrightarrow>
   mutationRequired ignoredList metadata = Inl errIgnoredNamespace"
  by (simp add: mutationRequired_def)

lemma ParseBool_error:
  "ParseBool v = Inl err \<Longrightarrow> err = NumError ''ParseBool'' v ErrSyntax"
  by (simp add: ParseBool_def split: if_splits)

lemma mutationRequired_malformed:
  "Namespace metadata \<notin> set ignoredList \<Longrightarrow>
   fmlookup (Labels metadata) EnabledLabel = Some v \<Longrightarrow>
   ParseBool v = Inl err \<Longrightarrow>
   mutationRequired ignoredList metadata = Inl err"
  by (simp add: mutationRequired_def)

lemma mutationRequired_eligible:
  "Namespace metadata \<notin> set ignoredList \<Longrightarrow>
   fmlookup (Labels metadata) EnabledLabel = Some v \<Longrightarrow>
   ParseBool v = Inr True \<Longrightarrow>
   mutationRequired ignoredList metadata =
     Inr (case fmlookup (Annotations metadata) PathsAnnotationKey of
            None \<Rightarrow> []
          | Some paths \<Rightarrow> map TrimSpace (Split paths CHR '',''))"
  by (simp add: mutationRequired_def split: option.split)

section \<open>The branches of mutate\<close>

lemma foldl_append_concat:
  "foldl (\<lambda>acc x. acc @ f x) acc0 xs = acc0 @ concat (map f xs)"
  by (induction xs arbitrary: acc0) simp_all

lemma mutate_decode_failed:
  "Unmarshal_objectWithMeta ext (bytes (Raw (Object req))) = Inl e \<Longrightarrow>
   mutate ext req = message_response e"
  by (simp add: mutate_def)

lemma mutate_resolver_failed:
  "Unmarshal_objectWithMeta ext (bytes (Raw (Object req))) = Inr m \<Longrightarrow>
   mutationRequired ignoredNamespaces (ObjectMeta m) = Inl err \<Longrightarrow>
   mutate ext req =
     (if err = errIgnoredNamespace \<or> err = errNoLabel \<or> err = errLabelDisabled
      then allowed_response
      else message_response (Error (Quote ext) err))"
  by (cases err) (simp_all add: mutate_def)

lemma mutate_no_paths:
  "Unmarshal_objectWithMeta ext (bytes (Raw (Object req))) = Inr m \<Longrightarrow>
   mutationRequired ignoredNamespaces (ObjectMeta m) = Inr [] \<Longrightarrow>
   mutate ext req = allowed_response"
  by (simp add: mutate_def)

lemma mutate_old_failed:
  "Unmarshal_objectWithMeta ext (bytes (Raw (Object req))) = Inr m \<Longrightarrow>
   mutationRequired ignoredNamespaces (ObjectMeta m) = Inr paths \<Longrightarrow>
   paths \<noteq> [] \<Longrightarrow>
   Raw (OldObject req) = Some raw \<Longrightarrow>
   Unmarshal_map ext raw = Inl e \<Longrightarrow>
   mutate ext req = message_response e"
  by (simp add: mutate_def)

lemma mutate_new_failed:
  "Unmarshal_objectWithMeta ext (bytes (Raw (Object req))) = Inr m \<Longrightarrow>
   mutationRequired ignoredNamespaces (ObjectMeta m) = Inr paths \<Longrightarrow>
   paths \<noteq> [] \<Longrightarrow>
   (case Raw (OldObject req) of None \<Rightarrow> Inr fmempty | Some raw \<Rightarrow> Unmarshal_map ext raw)
     = Inr currentMap \<Longrightarrow>
   Unmarshal_map ext (bytes (Raw (Object req))) = Inl e \<Longrightarrow>
   mutate ext req = message_response e"
  by (simp add: mutate_def)

lemma mutate_patches:
  "Unmarshal_objectWithMeta ext (bytes (Raw (Object req))) = Inr m \<Longrightarrow>
   mutationRequired ignoredNamespaces (ObjectMeta m) = Inr paths \<Longrightarrow>
   paths \<noteq> [] \<Longrightarrow>
   (case Raw (OldObject req) of None \<Rightarrow> Inr fmempty | Some raw \<Rightarrow> Unmarshal_map ext raw)
     = Inr currentMap \<Longrightarrow>
   Unmarshal_map ext (bytes (Raw (Object req))) = Inr newMap \<Longrightarrow>
   mutate ext req =
     (let patches = concat (map (\<lambda>path. patchForPath path currentMap newMap) paths)
      in if patches = [] then allowed_response
         else \<lparr>Allowed = True, Result = None, Patch = Some (Marshal patches),
               PatchType = Some PatchTypeJSONPatch\<rparr>)"
  by (simp add: mutate_def foldl_append_concat Let_def)

lemma Patch_mutate:
  "Patch (mutate ext req) = Some doc \<Longrightarrow>
   \<exists>paths currentMap newMap.
     doc = Marshal (concat (map (\<lambda>path. patchForPath path currentMap newMap) paths))"
  by (auto simp: mutate_def allowed_response_def message_response_def Let_def
        foldl_append_concat
      split: sum.splits error.splits if_splits option.splits)

section \<open>mutate at the payloads of TestMutate\<close>

lemma decode_empty:
  "Unmarshal_objectWithMeta test_externals [] = Inl ''unexpected end of JSON input''"
  by (simp add: test_externals_def test_Unmarshal_objectWithMeta_def)

lemma decode_kube_system:
  "Unmarshal_objectWithMeta test_externals
     (bytes (Raw (Object (request (Some payload_kube_system) None)))) = Inr meta_kube_system"
  by code_simp

lemma decode_NOTABOOL:
  "Unmarshal_objectWithMeta test_externals
     (bytes (Raw (Object (request (Some payload_NOTABOOL) None)))) = Inr meta_NOTABOOL"
  by code_simp

lemma decode_enabled:
  "Unmarshal_objectWithMeta test_externals
     (bytes (Raw (Object (request (Some payload_enabled) None)))) = Inr meta_enabled"
  by code_simp

lemma decode_stray_commas:
  "Unmarshal_objectWithMeta test_externals
     (bytes (Raw (Object (request (Some payload_stray_commas) None)))) = Inr meta_stray_commas"
  by code_simp

lemma decode_new:
  "Unmarshal_objectWithMeta test_externals
     (bytes (Raw (Object (request (Some payload_new) old)))) = Inr meta_new"
  by (simp add: request_def bytes_def test_externals_def test_Unmarshal_objectWithMeta_def
      payload_new_def payload_NOTABOOL_def)

lemma decode_map_new:
  "Unmarshal_map test_externals
     (bytes (Raw (Object (request (Some payload_new) old)))) = Inr map_new"
  by (simp add: request_def bytes_def test_externals_def test_Unmarshal_map_def
      payload_new_def)

lemma decode_map_old:
  "(case Raw (OldObject (request new (Some payload_old))) of
      None \<Rightarrow> Inr fmempty
    | Some raw \<Rightarrow> Unmarshal_map test_externals raw) = Inr map_old"
  by (simp add: request_def test_externals_def test_Unmarshal_map_def
      payload_new_def payload_old_def)

lemma paths_new:
  "mutationRequired ignoredNamespaces (ObjectMeta meta_new) =
     Inr [''/spec/replicas'', ''/metadata/labels/testlabel'']"
  by code_simp

lemma patches_new_old:
  "patchForPath ''/spec/replicas'' map_old map_new =
     [\<lparr>Op = ''replace'', Path = ''/spec/replicas'', Value = JNumber 10\<rparr>]"
  "patchForPath ''/metadata/labels/testlabel'' map_old map_new =
     [\<lparr>Op = ''replace'', Path = ''/metadata/labels/testlabel'',
        Value = JString ''existing''\<rparr>]"
  by code_simp+

lemma mutate_new_old:
  "mutate test_externals (request (Some payload_new) (Some payload_old)) =
     \<lparr>Allowed = True, Result = None,
      Patch = Some
        [[(''op'', JString ''replace''), (''path'', JString ''/spec/replicas''),
          (''value'', JNumber 10)],
         [(''op'', JString ''replace''), (''path'', JString ''/metadata/labels/testlabel''),
          (''value'', JString ''existing'')]],
      PatchType = Some PatchTypeJSONPatch\<rparr>"
  by code_simp

section \<open>The outcomes of mutate\<close>

text \<open>
  C3. When the new object does not decode (its payload is malformed or empty), the
  response of \<^verbatim>\<open>mutate\<close> carries the decoder's error text as its message and no
  patch; its \<^verbatim>\<open>Allowed\<close> field is false.
\<close>

theorem mutate_malformed_new_object:
  assumes "Unmarshal_objectWithMeta ext (bytes (Raw (Object req))) = Inl err"
  shows "mutate ext req =
           \<lparr>Allowed = False, Result = Some \<lparr>Message = err\<rparr>, Patch = None,
            PatchType = None\<rparr>"
  using mutate_decode_failed [OF assms] by (simp add: message_response_def)

text \<open>The first case of \<^verbatim>\<open>TestMutate\<close>: an empty payload; and no payload.\<close>

theorem mutate_malformed_new_object_witness:
  "Unmarshal_objectWithMeta test_externals (bytes (Raw (Object (request (Some []) None))))
     = Inl ''unexpected end of JSON input''
   \<and> mutate test_externals (request (Some []) None) =
       \<lparr>Allowed = False, Result = Some \<lparr>Message = ''unexpected end of JSON input''\<rparr>,
        Patch = None, PatchType = None\<rparr>
   \<and> mutate test_externals (request None None) =
       \<lparr>Allowed = False, Result = Some \<lparr>Message = ''unexpected end of JSON input''\<rparr>,
        Patch = None, PatchType = None\<rparr>"
proof -
  have h: "Unmarshal_objectWithMeta test_externals
             (bytes (Raw (Object (request (Some []) None))))
           = Inl ''unexpected end of JSON input''"
    by (simp add: request_def bytes_def decode_empty)
  have h': "Unmarshal_objectWithMeta test_externals
             (bytes (Raw (Object (request None None))))
           = Inl ''unexpected end of JSON input''"
    by (simp add: request_def bytes_def decode_empty)
  show ?thesis
    using h mutate_malformed_new_object [OF h] mutate_malformed_new_object [OF h']
    by simp
qed

text \<open>
  C4. When the new object decodes and its namespace is one of the ignored namespaces,
  the response is allowed and carries no patch and no message, whatever the labels and
  the annotations of the object are.
\<close>

theorem mutate_ignored_namespace:
  assumes "Unmarshal_objectWithMeta ext (bytes (Raw (Object req))) = Inr newManifest"
    and "Namespace (ObjectMeta newManifest) \<in> set ignoredNamespaces"
  shows "mutate ext req =
           \<lparr>Allowed = True, Result = None, Patch = None, PatchType = None\<rparr>"
  using mutate_resolver_failed [OF assms(1) mutationRequired_ignored [OF assms(2)]]
  by (simp add: allowed_response_def)

text \<open>
  An object of \<^verbatim>\<open>kube-system\<close> with the label set to true and a path to protect.
\<close>

theorem mutate_ignored_namespace_witness:
  "Unmarshal_objectWithMeta test_externals
     (bytes (Raw (Object (request (Some payload_kube_system) None)))) = Inr meta_kube_system
   \<and> Namespace (ObjectMeta meta_kube_system) \<in> set ignoredNamespaces
   \<and> fmlookup (Labels (ObjectMeta meta_kube_system)) EnabledLabel = Some ''true''
   \<and> fmlookup (Annotations (ObjectMeta meta_kube_system)) PathsAnnotationKey
       = Some ''/spec/replicas''
   \<and> mutate test_externals (request (Some payload_kube_system) None) =
       \<lparr>Allowed = True, Result = None, Patch = None, PatchType = None\<rparr>"
proof -
  have ns: "Namespace (ObjectMeta meta_kube_system) \<in> set ignoredNamespaces"
    by (simp add: meta_kube_system_def ignoredNamespaces_def NamespaceSystem_def)
  show ?thesis
    using ns mutate_ignored_namespace [OF decode_kube_system ns]
    by (simp add: decode_kube_system meta_kube_system_def)
qed

text \<open>
  C5. When the new object decodes, its namespace is not ignored and the enabling label
  is present with a value that \<^verbatim>\<open>strconv.ParseBool\<close> refuses, the response carries
  the text of the parser's error as its message and no patch, and it is not one of the
  allowed responses of a skip. The text names the function and quotes the value.
\<close>

theorem mutate_malformed_label:
  assumes "Unmarshal_objectWithMeta ext (bytes (Raw (Object req))) = Inr newManifest"
    and "Namespace (ObjectMeta newManifest) \<notin> set ignoredNamespaces"
    and "fmlookup (Labels (ObjectMeta newManifest)) EnabledLabel = Some v"
    and "ParseBool v = Inl err"
  shows "mutate ext req =
           \<lparr>Allowed = False, Result = Some \<lparr>Message = Error (Quote ext) err\<rparr>,
            Patch = None, PatchType = None\<rparr>
         \<and> Error (Quote ext) err =
             ''strconv.ParseBool: parsing '' @ Quote ext v @ '': invalid syntax''"
proof -
  have err: "err = NumError ''ParseBool'' v ErrSyntax"
    using assms(4) by (rule ParseBool_error)
  have "mutationRequired ignoredNamespaces (ObjectMeta newManifest) = Inl err"
    using assms(2-4) by (rule mutationRequired_malformed)
  from mutate_resolver_failed [OF assms(1) this] show ?thesis
    by (simp add: err message_response_def)
qed

text \<open>The case of \<^verbatim>\<open>TestMutate\<close> with the label \<^verbatim>\<open>NOTABOOL\<close>.\<close>

theorem mutate_malformed_label_witness:
  "fmlookup (Labels (ObjectMeta meta_NOTABOOL)) EnabledLabel = Some ''NOTABOOL''
   \<and> ParseBool ''NOTABOOL'' = Inl (NumError ''ParseBool'' ''NOTABOOL'' ErrSyntax)
   \<and> mutate test_externals (request (Some payload_NOTABOOL) None) =
       \<lparr>Allowed = False,
        Result = Some \<lparr>Message =
          ''strconv.ParseBool: parsing '' @ [CHR 0x22] @ ''NOTABOOL'' @ [CHR 0x22]
          @ '': invalid syntax''\<rparr>,
        Patch = None, PatchType = None\<rparr>"
proof -
  have ns: "Namespace (ObjectMeta meta_NOTABOOL) \<notin> set ignoredNamespaces"
    by (simp add: meta_NOTABOOL_def ignoredNamespaces_def NamespaceSystem_def
        NamespacePublic_def)
  have lab: "fmlookup (Labels (ObjectMeta meta_NOTABOOL)) EnabledLabel = Some ''NOTABOOL''"
    by (simp add: meta_NOTABOOL_def)
  have pb: "ParseBool ''NOTABOOL'' = Inl (NumError ''ParseBool'' ''NOTABOOL'' ErrSyntax)"
    by (simp add: ParseBool_def)
  show ?thesis
    using lab pb mutate_malformed_label [OF decode_NOTABOOL ns lab pb]
    by (simp add: test_externals_def)
qed

text \<open>
  C2, as the specification states it, fails: on the empty payload of \<^verbatim>\<open>TestMutate\<close>
  the decoder fails, and the response carries the message with \<^verbatim>\<open>Allowed\<close> false,
  as the test expects. It is not an allowed response.
\<close>

theorem mutate_not_allowed_counterexample:
  "Unmarshal_objectWithMeta test_externals (bytes (Raw (Object (request (Some []) None))))
     = Inl ''unexpected end of JSON input''
   \<and> Allowed (mutate test_externals (request (Some []) None)) = False
   \<and> Result (mutate test_externals (request (Some []) None))
     = Some \<lparr>Message = ''unexpected end of JSON input''\<rparr>"
  by (simp add: mutate_def request_def bytes_def decode_empty message_response_def)

text \<open>
  C2, amended. On every internal failure the response of \<^verbatim>\<open>mutate\<close> carries the
  error message and no patch, and its \<^verbatim>\<open>Allowed\<close> field is false. The failures are:
  the new object does not decode into its metadata; the enabling label of an object
  outside the ignored namespaces does not parse as a boolean; the old object, present,
  does not decode when the object is eligible and has paths; the new object then does
  not decode into a document.
\<close>

theorem mutate_internal_failure:
  assumes "Unmarshal_objectWithMeta ext (bytes (Raw (Object req))) = Inl e
     \<or> (\<exists>newManifest v err.
          Unmarshal_objectWithMeta ext (bytes (Raw (Object req))) = Inr newManifest
          \<and> Namespace (ObjectMeta newManifest) \<notin> set ignoredNamespaces
          \<and> fmlookup (Labels (ObjectMeta newManifest)) EnabledLabel = Some v
          \<and> ParseBool v = Inl err \<and> e = Error (Quote ext) err)
     \<or> (\<exists>newManifest paths raw.
          Unmarshal_objectWithMeta ext (bytes (Raw (Object req))) = Inr newManifest
          \<and> mutationRequired ignoredNamespaces (ObjectMeta newManifest) = Inr paths
          \<and> paths \<noteq> []
          \<and> Raw (OldObject req) = Some raw \<and> Unmarshal_map ext raw = Inl e)
     \<or> (\<exists>newManifest paths currentMap.
          Unmarshal_objectWithMeta ext (bytes (Raw (Object req))) = Inr newManifest
          \<and> mutationRequired ignoredNamespaces (ObjectMeta newManifest) = Inr paths
          \<and> paths \<noteq> []
          \<and> (case Raw (OldObject req) of
                None \<Rightarrow> Inr fmempty
              | Some raw \<Rightarrow> Unmarshal_map ext raw) = Inr currentMap
          \<and> Unmarshal_map ext (bytes (Raw (Object req))) = Inl e)"
  shows "mutate ext req =
           \<lparr>Allowed = False, Result = Some \<lparr>Message = e\<rparr>, Patch = None,
            PatchType = None\<rparr>"
proof -
  have "mutate ext req = message_response e"
    using assms
  proof (elim disjE exE conjE)
    assume "Unmarshal_objectWithMeta ext (bytes (Raw (Object req))) = Inl e"
    then show ?thesis by (rule mutate_decode_failed)
  next
    fix newManifest v err
    assume d: "Unmarshal_objectWithMeta ext (bytes (Raw (Object req))) = Inr newManifest"
      and ns: "Namespace (ObjectMeta newManifest) \<notin> set ignoredNamespaces"
      and lab: "fmlookup (Labels (ObjectMeta newManifest)) EnabledLabel = Some v"
      and pb: "ParseBool v = Inl err" and e: "e = Error (Quote ext) err"
    have "mutationRequired ignoredNamespaces (ObjectMeta newManifest) = Inl err"
      using ns lab pb by (rule mutationRequired_malformed)
    from mutate_resolver_failed [OF d this] show ?thesis
      using ParseBool_error [OF pb] e by simp
  next
    fix newManifest paths raw
    assume "Unmarshal_objectWithMeta ext (bytes (Raw (Object req))) = Inr newManifest"
      "mutationRequired ignoredNamespaces (ObjectMeta newManifest) = Inr paths"
      "paths \<noteq> []" "Raw (OldObject req) = Some raw" "Unmarshal_map ext raw = Inl e"
    then show ?thesis by (rule mutate_old_failed)
  next
    fix newManifest paths currentMap
    assume "Unmarshal_objectWithMeta ext (bytes (Raw (Object req))) = Inr newManifest"
      "mutationRequired ignoredNamespaces (ObjectMeta newManifest) = Inr paths"
      "paths \<noteq> []"
      "(case Raw (OldObject req) of None \<Rightarrow> Inr fmempty | Some raw \<Rightarrow> Unmarshal_map ext raw)
         = Inr currentMap"
      "Unmarshal_map ext (bytes (Raw (Object req))) = Inl e"
    then show ?thesis by (rule mutate_new_failed)
  qed
  then show ?thesis by (simp add: message_response_def)
qed

text \<open>An update whose old object is present and empty: the old object does not decode.\<close>

theorem mutate_internal_failure_witness:
  "Raw (OldObject (request (Some payload_new) (Some []))) = Some []
   \<and> Unmarshal_map test_externals [] = Inl ''unexpected end of JSON input''
   \<and> mutate test_externals (request (Some payload_new) (Some [])) =
       \<lparr>Allowed = False, Result = Some \<lparr>Message = ''unexpected end of JSON input''\<rparr>,
        Patch = None, PatchType = None\<rparr>"
proof -
  have old: "Raw (OldObject (request (Some payload_new) (Some []))) = Some []"
    by (simp add: request_def)
  have fail: "Unmarshal_map test_externals [] = Inl ''unexpected end of JSON input''"
    by (simp add: test_externals_def test_Unmarshal_map_def)
  have "\<exists>newManifest paths raw.
          Unmarshal_objectWithMeta test_externals
            (bytes (Raw (Object (request (Some payload_new) (Some []))))) = Inr newManifest
          \<and> mutationRequired ignoredNamespaces (ObjectMeta newManifest) = Inr paths
          \<and> paths \<noteq> []
          \<and> Raw (OldObject (request (Some payload_new) (Some []))) = Some raw
          \<and> Unmarshal_map test_externals raw = Inl ''unexpected end of JSON input''"
    using decode_new paths_new old fail by blast
  then show ?thesis
    using old fail
      mutate_internal_failure [of test_externals "request (Some payload_new) (Some [])"
        "''unexpected end of JSON input''"]
    by blast
qed

text \<open>
  C6. For an eligible object (it decodes, its namespace is not ignored, its enabling
  label parses as true): when the paths annotation is present, the resolved paths are the
  pieces of its value between the commas (joined with commas they are the value, and
  none holds a comma), each trimmed of its leading and trailing white space, in their
  order, one for each piece (one more than there are commas), so that an empty piece
  stays as an empty path; when the annotation is absent, no path is
  resolved and the response is allowed without a patch.
\<close>

theorem mutationRequired_paths:
  assumes "Unmarshal_objectWithMeta ext (bytes (Raw (Object req))) = Inr newManifest"
    and "Namespace (ObjectMeta newManifest) \<notin> set ignoredNamespaces"
    and "fmlookup (Labels (ObjectMeta newManifest)) EnabledLabel = Some v"
    and "ParseBool v = Inr True"
  shows "case fmlookup (Annotations (ObjectMeta newManifest)) PathsAnnotationKey of
           None \<Rightarrow>
             mutationRequired ignoredNamespaces (ObjectMeta newManifest) = Inr []
             \<and> mutate ext req =
                 \<lparr>Allowed = True, Result = None, Patch = None, PatchType = None\<rparr>
         | Some paths \<Rightarrow>
             mutationRequired ignoredNamespaces (ObjectMeta newManifest) =
               Inr (map TrimSpace (Split paths CHR '',''))
             \<and> length (map TrimSpace (Split paths CHR '','')) = Suc (count_list paths CHR '','')
             \<and> Join (Split paths CHR '','') CHR '','' = paths
             \<and> (\<forall>piece \<in> set (Split paths CHR '',''). CHR '','' \<notin> set piece)"
proof (cases "fmlookup (Annotations (ObjectMeta newManifest)) PathsAnnotationKey")
  case None
  have r: "mutationRequired ignoredNamespaces (ObjectMeta newManifest) = Inr []"
    using mutationRequired_eligible [OF assms(2-4)] None by simp
  from mutate_no_paths [OF assms(1) r] r None show ?thesis
    by (simp add: allowed_response_def)
next
  case (Some paths)
  then show ?thesis
    using mutationRequired_eligible [OF assms(2-4)]
    by (simp add: length_Split Join_Split Split_no_sep)
qed

text \<open>
  An annotation with two stray commas resolves to four paths, two of them empty; the
  case of \<^verbatim>\<open>TestMutate\<close> with the label and no annotation is allowed.
\<close>

theorem mutationRequired_paths_witness:
  "mutationRequired ignoredNamespaces (ObjectMeta meta_stray_commas) =
     Inr [''/spec/replicas'', [], ''/metadata/labels/testlabel'', []]
   \<and> mutationRequired ignoredNamespaces (ObjectMeta meta_enabled) = Inr []
   \<and> mutate test_externals (request (Some payload_enabled) None) =
       \<lparr>Allowed = True, Result = None, Patch = None, PatchType = None\<rparr>"
proof -
  have ns1: "Namespace (ObjectMeta meta_stray_commas) \<notin> set ignoredNamespaces"
    by (simp add: meta_stray_commas_def ignoredNamespaces_def NamespaceSystem_def
        NamespacePublic_def)
  have lab1: "fmlookup (Labels (ObjectMeta meta_stray_commas)) EnabledLabel = Some ''true''"
    by (simp add: meta_stray_commas_def)
  have ns2: "Namespace (ObjectMeta meta_enabled) \<notin> set ignoredNamespaces"
    by (simp add: meta_enabled_def ignoredNamespaces_def NamespaceSystem_def
        NamespacePublic_def)
  have lab2: "fmlookup (Labels (ObjectMeta meta_enabled)) EnabledLabel = Some ''true''"
    by (simp add: meta_enabled_def)
  have pb: "ParseBool ''true'' = Inr True"
    by (simp add: ParseBool_def)
  have ann1: "fmlookup (Annotations (ObjectMeta meta_stray_commas)) PathsAnnotationKey =
      Some ''/spec/replicas,, /metadata/labels/testlabel ,''"
    by (simp add: meta_stray_commas_def)
  have ann2: "fmlookup (Annotations (ObjectMeta meta_enabled)) PathsAnnotationKey = None"
    by (simp add: meta_enabled_def)
  show ?thesis
    using mutationRequired_paths [OF decode_stray_commas ns1 lab1 pb]
      mutationRequired_paths [OF decode_enabled ns2 lab2 pb]
    by (simp add: ann1 ann2 TrimSpace_examples)
qed

text \<open>
  C7. In every patch that \<^verbatim>\<open>mutate\<close> returns, for any request and any decoder, the
  member \<^verbatim>\<open>op\<close> of every operation is \<^verbatim>\<open>add\<close> or \<^verbatim>\<open>replace\<close>; it is never
  \<^verbatim>\<open>remove\<close>.
\<close>

theorem mutate_ops_add_or_replace:
  assumes "Patch (mutate ext req) = Some doc"
  shows "\<forall>entry \<in> set doc.
           (map_of entry ''op'' = Some (JString ''add'')
            \<or> map_of entry ''op'' = Some (JString ''replace''))
           \<and> map_of entry ''op'' \<noteq> Some (JString ''remove'')"
proof
  fix entry
  assume entry: "entry \<in> set doc"
  from Patch_mutate [OF assms] obtain paths currentMap newMap where
    doc: "doc = Marshal (concat (map (\<lambda>path. patchForPath path currentMap newMap) paths))"
    by blast
  from entry obtain p path where "p \<in> set (patchForPath path currentMap newMap)"
    and "entry = Marshal_patchOperation p"
    by (auto simp: doc Marshal_def)
  then show "(map_of entry ''op'' = Some (JString ''add'')
            \<or> map_of entry ''op'' = Some (JString ''replace''))
           \<and> map_of entry ''op'' \<noteq> Some (JString ''remove'')"
    using patchForPath_Op [of p path currentMap newMap]
    by (auto simp: map_of_Marshal_op)
qed

text \<open>The case of \<^verbatim>\<open>TestMutate\<close> with two paths: two operations, both \<^verbatim>\<open>replace\<close>.\<close>

theorem mutate_ops_add_or_replace_witness:
  "Patch (mutate test_externals (request (Some payload_new) (Some payload_old))) =
     Some
        [[(''op'', JString ''replace''), (''path'', JString ''/spec/replicas''),
          (''value'', JNumber 10)],
         [(''op'', JString ''replace''), (''path'', JString ''/metadata/labels/testlabel''),
          (''value'', JString ''existing'')]]
   \<and> map_of [(''op'', JString ''replace''), (''path'', JString ''/spec/replicas''),
          (''value'', JNumber 10)] ''op'' = Some (JString ''replace'')
   \<and> map_of [(''op'', JString ''replace''), (''path'', JString ''/metadata/labels/testlabel''),
          (''value'', JString ''existing'')] ''op'' = Some (JString ''replace'')"
proof -
  have h: "Patch (mutate test_externals (request (Some payload_new) (Some payload_old))) =
     Some
        [[(''op'', JString ''replace''), (''path'', JString ''/spec/replicas''),
          (''value'', JNumber 10)],
         [(''op'', JString ''replace''), (''path'', JString ''/metadata/labels/testlabel''),
          (''value'', JString ''existing'')]]"
    by (simp add: mutate_new_old)
  show ?thesis
    using h mutate_ops_add_or_replace [OF h] by simp
qed

lemma decode_twice:
  "Unmarshal_objectWithMeta test_externals
     (bytes (Raw (Object (request (Some payload_twice) old)))) = Inr meta_twice"
  by code_simp

lemma decode_map_twice:
  "Unmarshal_map test_externals
     (bytes (Raw (Object (request (Some payload_twice) old)))) = Inr map_twice"
  by code_simp

lemma paths_twice:
  "mutationRequired ignoredNamespaces (ObjectMeta meta_twice) =
     Inr [''/spec/replicas'', ''/spec/replicas'']"
  by code_simp

lemma patch_twice:
  "patchForPath ''/spec/replicas'' map_old map_twice =
     [\<lparr>Op = ''replace'', Path = ''/spec/replicas'', Value = JNumber 10\<rparr>]"
  by code_simp

text \<open>
  C8, as the specification states it, fails: an annotation may name a path twice, no
  entry is dropped, and the loop of \<^verbatim>\<open>mutate\<close> runs once for each entry. With
  \<^verbatim>\<open>/spec/replicas,/spec/replicas\<close> and replicas changed from 10 to 1, the patch has
  two operations for the one protected path.
\<close>

theorem mutate_path_twice_counterexample:
  "mutationRequired ignoredNamespaces (ObjectMeta meta_twice) =
     Inr [''/spec/replicas'', ''/spec/replicas'']
   \<and> Patch (mutate test_externals (request (Some payload_twice) (Some payload_old))) =
       Some
        [[(''op'', JString ''replace''), (''path'', JString ''/spec/replicas''),
          (''value'', JNumber 10)],
         [(''op'', JString ''replace''), (''path'', JString ''/spec/replicas''),
          (''value'', JNumber 10)]]"
proof -
  have "mutate test_externals (request (Some payload_twice) (Some payload_old)) =
     \<lparr>Allowed = True, Result = None,
      Patch = Some
        [[(''op'', JString ''replace''), (''path'', JString ''/spec/replicas''),
          (''value'', JNumber 10)],
         [(''op'', JString ''replace''), (''path'', JString ''/spec/replicas''),
          (''value'', JNumber 10)]],
      PatchType = Some PatchTypeJSONPatch\<rparr>"
    by code_simp
  then show ?thesis
    by (simp add: paths_twice)
qed

text \<open>
  C8, amended. For an eligible request with paths whose two documents decode, the patch
  is the encoding of the operations of the entries of the declared path list, taken in
  the order of the annotation, each entry giving one operation or none: there are no
  more operations than entries, and the paths of the operations are the declared
  entries that need a patch, in the declared order. When no path is declared twice, no
  two operations have the same path. There is no patch when no entry needs one.
\<close>

theorem mutate_patch_order:
  assumes "Unmarshal_objectWithMeta ext (bytes (Raw (Object req))) = Inr newManifest"
    and "mutationRequired ignoredNamespaces (ObjectMeta newManifest) = Inr paths"
    and "paths \<noteq> []"
    and "(case Raw (OldObject req) of
            None \<Rightarrow> Inr fmempty
          | Some raw \<Rightarrow> Unmarshal_map ext raw) = Inr currentMap"
    and "Unmarshal_map ext (bytes (Raw (Object req))) = Inr newMap"
  shows "let ops = concat (map (\<lambda>path. patchForPath path currentMap newMap) paths);
             patched = filter (\<lambda>path. patchForPath path currentMap newMap \<noteq> []) paths
         in Patch (mutate ext req) = (if ops = [] then None else Some (Marshal ops))
            \<and> length ops \<le> length paths
            \<and> map Path ops = patched
            \<and> map (\<lambda>entry. map_of entry ''path'') (Marshal ops) =
                map (\<lambda>path. Some (JString path)) patched
            \<and> (\<forall>path \<in> set paths. length (patchForPath path currentMap newMap) \<le> 1)
            \<and> (distinct paths \<longrightarrow> distinct (map Path ops))"
proof -
  let ?ops = "concat (map (\<lambda>path. patchForPath path currentMap newMap) paths)"
  let ?patched = "filter (\<lambda>path. patchForPath path currentMap newMap \<noteq> []) paths"
  have dist: "distinct paths \<longrightarrow> distinct (map Path ?ops)"
    by (simp add: Path_concat_patchForPath)
  have resp: "Patch (mutate ext req) = (if ?ops = [] then None else Some (Marshal ?ops))"
    using mutate_patches [OF assms] by (simp add: Let_def allowed_response_def)
  have paths: "map Path ?ops = ?patched"
    by (rule Path_concat_patchForPath)
  have "map (\<lambda>entry. map_of entry ''path'') (Marshal ?ops) =
          map (\<lambda>path. Some (JString path)) (map Path ?ops)"
    by (simp add: Marshal_def map_of_Marshal_path comp_def)
  then have entries: "map (\<lambda>entry. map_of entry ''path'') (Marshal ?ops) =
          map (\<lambda>path. Some (JString path)) ?patched"
    by (simp only: paths)
  show ?thesis
    unfolding Let_def
    using resp paths entries dist length_concat_patchForPath [of currentMap newMap paths]
      length_patchForPath
    by blast
qed

text \<open>
  The case of \<^verbatim>\<open>TestMutate\<close> with two paths that both differ: two operations, in the
  order of the annotation.
\<close>

theorem mutate_patch_order_witness:
  "mutationRequired ignoredNamespaces (ObjectMeta meta_new) =
     Inr [''/spec/replicas'', ''/metadata/labels/testlabel'']
   \<and> Patch (mutate test_externals (request (Some payload_new) (Some payload_old))) =
       Some (Marshal
         [\<lparr>Op = ''replace'', Path = ''/spec/replicas'', Value = JNumber 10\<rparr>,
          \<lparr>Op = ''replace'', Path = ''/metadata/labels/testlabel'',
            Value = JString ''existing''\<rparr>])
   \<and> map (\<lambda>entry. map_of entry ''path'')
         (Marshal
           [\<lparr>Op = ''replace'', Path = ''/spec/replicas'', Value = JNumber 10\<rparr>,
            \<lparr>Op = ''replace'', Path = ''/metadata/labels/testlabel'',
              Value = JString ''existing''\<rparr>]) =
       [Some (JString ''/spec/replicas''), Some (JString ''/metadata/labels/testlabel'')]
   \<and> distinct [''/spec/replicas'', ''/metadata/labels/testlabel'']
   \<and> distinct (map Path
         [\<lparr>Op = ''replace'', Path = ''/spec/replicas'', Value = JNumber 10\<rparr>,
          \<lparr>Op = ''replace'', Path = ''/metadata/labels/testlabel'',
            Value = JString ''existing''\<rparr>])"
proof -
  have ne: "[''/spec/replicas'', ''/metadata/labels/testlabel''] \<noteq> []"
    by simp
  show ?thesis
    using paths_new
      mutate_patch_order [OF decode_new paths_new ne decode_map_old decode_map_new]
    by (simp add: Let_def patches_new_old)
qed

end
